theory Spec2Isabelle
  imports Complex_Main
begin

section \<open>Numbers, nullable numbers and rounding\<close>

text \<open>
  The engine is TypeScript. A \<open>number\<close> is modelled as a \<open>real\<close> (rounding of doubles,
  \<open>NaN\<close> and the infinities are left out), and \<open>number | null\<close> as \<open>real option\<close> with
  \<open>None\<close> for \<open>null\<close>.

  A nullable number used as a condition (\<open>if (state.startTime)\<close>) is true when it is neither
  \<open>null\<close> nor \<open>0\<close>; used in arithmetic, \<open>null\<close> counts as \<open>0\<close>.
\<close>

definition truthy :: "real option \<Rightarrow> bool" where
  "truthy v = (case v of None \<Rightarrow> False | Some x \<Rightarrow> x \<noteq> 0)"

definition ToNumber :: "real option \<Rightarrow> real" where
  "ToNumber v = (case v of None \<Rightarrow> 0 | Some x \<Rightarrow> x)"

text \<open>\<open>Math.round\<close>: the nearest integer, a tie going up.\<close>

definition Math_round :: "real \<Rightarrow> int" where
  "Math_round x = \<lfloor>x + 1 / 2\<rfloor>"

section \<open>The local clock (the transport of the audio library)\<close>

text \<open>
  The transport is an object of the audio library, not of this repository. The engine reads
  its \<open>state\<close> and \<open>seconds\<close>, writes \<open>seconds\<close> and \<open>bpm.value\<close>, and calls \<open>start()\<close>,
  \<open>start(time)\<close>, \<open>pause()\<close> and \<open>stop()\<close>. The record holds what is read and written; every
  write and call is also appended to \<open>tr_calls\<close>, so that a statement about what an
  operation does to the clock can be read off the calls alone.
\<close>

datatype PlaybackState = Started | Stopped | Paused

datatype transport_call =
    Set_seconds real
  | Set_bpm real
  | Start_now
  | Start_at real
  | Pause_call
  | Stop_call

record Transport =
  tr_seconds :: real
  tr_state :: PlaybackState
  tr_bpm :: real
  tr_pending :: "real option"
  tr_calls :: "transport_call list"

definition set_seconds :: "real \<Rightarrow> Transport \<Rightarrow> Transport" where
  "set_seconds x tr = tr\<lparr>tr_seconds := x, tr_calls := tr_calls tr @ [Set_seconds x]\<rparr>"

definition set_bpm :: "real \<Rightarrow> Transport \<Rightarrow> Transport" where
  "set_bpm x tr = tr\<lparr>tr_bpm := x, tr_calls := tr_calls tr @ [Set_bpm x]\<rparr>"

definition transport_start :: "Transport \<Rightarrow> Transport" where
  "transport_start tr =
     tr\<lparr>tr_state := Started, tr_pending := None, tr_calls := tr_calls tr @ [Start_now]\<rparr>"

text \<open>\<open>start(time)\<close> with a time in the future: the clock keeps its state until then.\<close>

definition transport_start_at :: "real \<Rightarrow> Transport \<Rightarrow> Transport" where
  "transport_start_at t tr =
     tr\<lparr>tr_pending := Some t, tr_calls := tr_calls tr @ [Start_at t]\<rparr>"

text \<open>\<open>pause()\<close> freezes a started clock where it is; a clock that is not started stays as it is.\<close>

definition transport_pause :: "Transport \<Rightarrow> Transport" where
  "transport_pause tr =
     tr\<lparr>tr_state := (if tr_state tr = Started then Paused else tr_state tr),
        tr_calls := tr_calls tr @ [Pause_call]\<rparr>"

definition transport_stop :: "Transport \<Rightarrow> Transport" where
  "transport_stop tr =
     tr\<lparr>tr_seconds := 0, tr_state := Stopped, tr_pending := None,
        tr_calls := tr_calls tr @ [Stop_call]\<rparr>"

text \<open>
  The position the clock reports at audio time \<open>t\<close>, from its record at audio time \<open>t0 \<le> t\<close>
  when nothing touches it in between: a started clock advances in real time, any other
  holds its position until a scheduled start arrives.
\<close>

definition position_at :: "real \<Rightarrow> real \<Rightarrow> Transport \<Rightarrow> real" where
  "position_at t0 t tr =
     (if tr_state tr = Started then tr_seconds tr + (t - t0)
      else case tr_pending tr of
             None \<Rightarrow> tr_seconds tr
           | Some s \<Rightarrow> if s \<le> t then tr_seconds tr + (t - s) else tr_seconds tr)"

section \<open>The timestamp engine (herehear, \<open>TimingSync.ts\<close>)\<close>

subsection \<open>State\<close>

record TransportState =
  startTime :: "real option"
  bpm :: real
  isPlaying :: bool
  pausedPosition :: real

type_synonym callback = nat

record TimingSync =
  updateInterval :: "nat option"
  isInitialized :: bool
  onBpmChangeCallback :: "callback option"
  currentState :: TransportState

text \<open>
  What the console receives: the fixed text of the message and the numbers printed with it
  (their formatting by \<open>toFixed\<close> is not modelled).
\<close>

datatype console_entry = Log string "real list" | Warn string

text \<open>
  The engine with everything it acts on: the transport, the console, the calls made to the
  registered callback (which callback, with which argument) and the delays handed to
  \<open>window.setTimeout\<close>, whose handle is the index of the delay in \<open>timeouts\<close>.
\<close>

record World =
  engine :: TimingSync
  transport :: Transport
  console :: "console_entry list"
  callback_calls :: "(callback \<times> int) list"
  timeouts :: "real list"

definition on_transport :: "(Transport \<Rightarrow> Transport) \<Rightarrow> World \<Rightarrow> World" where
  "on_transport f w = w\<lparr>transport := f (transport w)\<rparr>"

definition on_state :: "(TransportState \<Rightarrow> TransportState) \<Rightarrow> World \<Rightarrow> World" where
  "on_state f w = w\<lparr>engine := (engine w)\<lparr>currentState := f (currentState (engine w))\<rparr>\<rparr>"

definition console_log :: "string \<Rightarrow> real list \<Rightarrow> World \<Rightarrow> World" where
  "console_log msg xs w = w\<lparr>console := console w @ [Log msg xs]\<rparr>"

definition console_warn :: "string \<Rightarrow> World \<Rightarrow> World" where
  "console_warn msg w = w\<lparr>console := console w @ [Warn msg]\<rparr>"

definition invoke :: "callback \<Rightarrow> int \<Rightarrow> World \<Rightarrow> World" where
  "invoke cb n w = w\<lparr>callback_calls := callback_calls w @ [(cb, n)]\<rparr>"

definition setTimeout :: "real \<Rightarrow> World \<Rightarrow> nat \<times> World" where
  "setTimeout delay w = (length (timeouts w), w\<lparr>timeouts := timeouts w @ [delay]\<rparr>)"

text \<open>The field initialisers of the class, with a transport nobody has touched.\<close>

definition new_TimingSync :: TimingSync where
  "new_TimingSync =
     \<lparr>updateInterval = None, isInitialized = False, onBpmChangeCallback = None,
      currentState = \<lparr>startTime = None, bpm = 120, isPlaying = False, pausedPosition = 0\<rparr>\<rparr>"

definition new_Transport :: Transport where
  "new_Transport =
     \<lparr>tr_seconds = 0, tr_state = Stopped, tr_bpm = 120, tr_pending = None, tr_calls = []\<rparr>"

definition new_World :: World where
  "new_World =
     \<lparr>engine = new_TimingSync, transport = new_Transport, console = [],
      callback_calls = [], timeouts = []\<rparr>"

subsection \<open>Smooth seek and drift correction\<close>

text \<open>\<open>seekTo(targetSeconds)\<close>; \<open>toneNow\<close> is what \<open>Tone.now()\<close> returns.\<close>

definition seekTo :: "real \<Rightarrow> real \<Rightarrow> World \<Rightarrow> World" where
  "seekTo toneNow targetSeconds w =
     (let lookahead = 0.05 in
      on_transport (transport_start_at (toneNow + lookahead))
        (on_transport (set_seconds (targetSeconds + lookahead))
          (on_transport transport_pause w)))"

text \<open>\<open>syncToTransport()\<close>; \<open>now\<close> is what \<open>Date.now()\<close> returns.\<close>

definition syncToTransport :: "real \<Rightarrow> real \<Rightarrow> World \<Rightarrow> World" where
  "syncToTransport now toneNow w =
     (if \<not> isInitialized (engine w) \<or> \<not> isPlaying (currentState (engine w))
         \<or> \<not> truthy (startTime (currentState (engine w)))
      then w
      else
        let elapsed = now - ToNumber (startTime (currentState (engine w)));
            expectedPosition = elapsed / 1000;
            currentPosition = tr_seconds (transport w);
            drift = \<bar>currentPosition - expectedPosition\<bar>
        in if drift > 0.05
           then seekTo toneNow expectedPosition
                  (console_log ''[TimingSync] Correcting drift: ms'' [drift * 1000] w)
           else w)"

text \<open>
  The body \<open>sync\<close> of \<open>startSyncLoop()\<close>, run once at initialisation and then each time its
  own timeout fires; \<open>r\<close> is what \<open>Math.random()\<close> returns.
\<close>

definition sync :: "real \<Rightarrow> real \<Rightarrow> real \<Rightarrow> World \<Rightarrow> World" where
  "sync now toneNow r w =
     (let w1 = syncToTransport now toneNow w;
          baseInterval = 250;
          jitterRange = 50;
          jitter = baseInterval + (r * jitterRange * 2 - jitterRange);
          (h, w2) = setTimeout jitter w1
      in w2\<lparr>engine := (engine w2)\<lparr>updateInterval := Some h\<rparr>\<rparr>)"

definition startSyncLoop :: "real \<Rightarrow> real \<Rightarrow> real \<Rightarrow> World \<Rightarrow> World" where
  "startSyncLoop now toneNow r w = sync now toneNow r w"

subsection \<open>Lifecycle\<close>

definition initialize :: "real \<Rightarrow> real \<Rightarrow> real \<Rightarrow> real \<Rightarrow> World \<Rightarrow> World" where
  "initialize now toneNow r bpm0 w =
     (if isInitialized (engine w)
      then console_log ''TimingSync already initialized'' [] w
      else
        let w1 = console_log ''Initializing TimingSync with timestamp-based sync'' [] w;
            w2 = on_state (\<lambda>s. s\<lparr>bpm := bpm0\<rparr>) w1;
            w3 = w2\<lparr>engine := (engine w2)\<lparr>isInitialized := True\<rparr>\<rparr>;
            w4 = on_transport (set_bpm bpm0) w3;
            w5 = startSyncLoop now toneNow r w4
        in console_log ''TimingSync ready!'' [] w5)"

definition onBpmChange :: "callback \<Rightarrow> World \<Rightarrow> World" where
  "onBpmChange cb w = w\<lparr>engine := (engine w)\<lparr>onBpmChangeCallback := Some cb\<rparr>\<rparr>"

definition getState :: "World \<Rightarrow> TransportState" where
  "getState w = currentState (engine w)"

subsection \<open>Remote reconciler\<close>

definition syncFromRemote :: "real \<Rightarrow> real \<Rightarrow> TransportState \<Rightarrow> World \<Rightarrow> World" where
  "syncFromRemote now toneNow state w =
     (if \<not> isInitialized (engine w) then w
      else
        let prevBpm = bpm (currentState (engine w));
            wasPlaying = isPlaying (currentState (engine w));
            w1 = on_state (\<lambda>_. state) w;
            w2 = (if \<bar>prevBpm - bpm state\<bar> > 0.1
                  then (case onBpmChangeCallback (engine w1) of
                          None \<Rightarrow> w1
                        | Some cb \<Rightarrow> invoke cb (Math_round (bpm state)) w1)
                  else w1);
            w3 = on_transport (set_bpm (bpm state)) w2
        in if isPlaying state \<and> truthy (startTime state)
           then
             let elapsed = now - ToNumber (startTime state);
                 positionInSeconds = elapsed / 1000
             in if \<not> wasPlaying \<or> tr_state (transport w3) \<noteq> Started
                then on_transport transport_start
                       (on_transport (set_seconds positionInSeconds)
                         (console_log ''[TimingSync] Starting Transport'' [] w3))
                else
                  let drift = \<bar>tr_seconds (transport w3) - positionInSeconds\<bar>
                  in if drift > 0.05
                     then seekTo toneNow positionInSeconds
                            (console_log ''[TimingSync] syncFromRemote correcting drift: ms''
                               [drift * 1000] w3)
                     else w3
           else if tr_state (transport w3) = Started
                then on_transport transport_pause
                       (console_log ''[TimingSync] Pausing Transport'' [] w3)
                else w3)"

text \<open>
  The repository holds a second copy of this class (the file \<open>src/unnamed/part_000\<close>), the
  same engine without \<open>seekTo\<close>. Its \<open>syncFromRemote\<close> does not look at what the engine's
  state was and has no drift test: for a playing snapshot it writes the position first and
  then starts the clock if it is not started.
\<close>

definition syncFromRemote_part_000 :: "real \<Rightarrow> TransportState \<Rightarrow> World \<Rightarrow> World" where
  "syncFromRemote_part_000 now state w =
     (if \<not> isInitialized (engine w) then w
      else
        let prevBpm = bpm (currentState (engine w));
            w1 = on_state (\<lambda>_. state) w;
            w2 = (if \<bar>prevBpm - bpm state\<bar> > 0.1
                  then (case onBpmChangeCallback (engine w1) of
                          None \<Rightarrow> w1
                        | Some cb \<Rightarrow> invoke cb (Math_round (bpm state)) w1)
                  else w1);
            w3 = on_transport (set_bpm (bpm state)) w2
        in if isPlaying state \<and> truthy (startTime state)
           then
             let elapsed = now - ToNumber (startTime state);
                 positionInSeconds = elapsed / 1000;
                 w4 = on_transport (set_seconds positionInSeconds) w3
             in if tr_state (transport w4) \<noteq> Started
                then on_transport transport_start
                       (console_log ''[TimingSync] Starting Transport'' [] w4)
                else w4
           else if tr_state (transport w3) = Started
                then on_transport transport_pause
                       (console_log ''[TimingSync] Pausing Transport'' [] w3)
                else w3)"

subsection \<open>Local command handlers\<close>

text \<open>
  Each handler returns the state it hands to its caller and the world it leaves. All five
  open with the same guard, \<open>console.warn('TimingSync not initialized'); return
  this.currentState\<close>, which is \<open>not_initialized\<close>.
\<close>

definition not_initialized :: "World \<Rightarrow> TransportState \<times> World" where
  "not_initialized w =
     (let w1 = console_warn ''TimingSync not initialized'' w
      in (currentState (engine w1), w1))"

definition setBPM :: "real \<Rightarrow> World \<Rightarrow> TransportState \<times> World" where
  "setBPM b w =
     (if \<not> isInitialized (engine w) then not_initialized w
      else
        let w1 = on_state (\<lambda>s. s\<lparr>bpm := b\<rparr>) w;
            w2 = on_transport (set_bpm b) w1;
            w3 = console_log ''Updated BPM:'' [b] w2
        in (currentState (engine w3), w3))"

definition start :: "real \<Rightarrow> World \<Rightarrow> TransportState \<times> World" where
  "start now w =
     (if \<not> isInitialized (engine w) then not_initialized w
      else
        let w1 = on_transport (set_seconds 0) w;
            w2 = on_state (\<lambda>s. s\<lparr>startTime := Some now\<rparr>) w1;
            w3 = on_state (\<lambda>s. s\<lparr>isPlaying := True\<rparr>) w2;
            w4 = on_state (\<lambda>s. s\<lparr>pausedPosition := 0\<rparr>) w3;
            w5 = on_transport transport_start w4;
            w6 = console_log ''Started playback from 0 at:'' [now] w5
        in (currentState (engine w6), w6))"

definition resume :: "real \<Rightarrow> World \<Rightarrow> TransportState \<times> World" where
  "resume now w =
     (if \<not> isInitialized (engine w) then not_initialized w
      else if isPlaying (currentState (engine w))
      then (let w1 = console_log ''Already playing'' [] w in (currentState (engine w1), w1))
      else
        let pos = pausedPosition (currentState (engine w));
            w1 = on_transport (set_seconds pos) w;
            w2 = on_state (\<lambda>s. s\<lparr>startTime := Some (now - pos * 1000)\<rparr>) w1;
            w3 = on_state (\<lambda>s. s\<lparr>isPlaying := True\<rparr>) w2;
            w4 = on_transport transport_start w3;
            w5 = console_log ''Resumed playback from s'' [pos] w4
        in (currentState (engine w5), w5))"

definition pause :: "real \<Rightarrow> World \<Rightarrow> TransportState \<times> World" where
  "pause now w =
     (if \<not> isInitialized (engine w) then not_initialized w
      else
        let w1 = (if truthy (startTime (currentState (engine w)))
                  then on_state (\<lambda>s. s\<lparr>pausedPosition := (now - ToNumber (startTime s)) / 1000\<rparr>) w
                  else w);
            w2 = on_state (\<lambda>s. s\<lparr>isPlaying := False\<rparr>) w1;
            w3 = on_state (\<lambda>s. s\<lparr>startTime := None\<rparr>) w2;
            w4 = on_transport transport_pause w3;
            w5 = console_log ''Paused at s'' [pausedPosition (currentState (engine w4))] w4
        in (currentState (engine w5), w5))"

definition reset :: "real \<Rightarrow> World \<Rightarrow> TransportState \<times> World" where
  "reset now w =
     (if \<not> isInitialized (engine w) then not_initialized w
      else
        let w1 = on_transport (set_seconds 0) w;
            w2 = on_state (\<lambda>s. s\<lparr>pausedPosition := 0\<rparr>) w1;
            w3 = (if isPlaying (currentState (engine w2))
                  then on_state (\<lambda>s. s\<lparr>startTime := Some now\<rparr>) w2
                  else w2);
            w4 = console_log ''Reset position to 0'' [] w3
        in (currentState (engine w4), w4))"

section \<open>The kinematic-vector engine (gpsound, \<open>TimingSync.ts\<close>)\<close>

text \<open>
  The timing object is an object of a timing library; the engine only calls its \<open>query()\<close>.
  The field \<open>gp_timingObject\<close> is \<open>None\<close> for \<open>null\<close> and otherwise holds the vector that
  \<open>query()\<close> returns.
\<close>

record Vector =
  position :: real
  velocity :: real
  timestamp :: real
  acceleration :: real

datatype error = Acceleration_not_supported

record GpTimingSync =
  gp_timingObject :: "Vector option"
  gp_updateInterval :: "nat option"
  gp_isInitialized :: bool
  gp_onBpmChangeCallback :: "callback option"

record GpWorld =
  gp_engine :: GpTimingSync
  gp_transport :: Transport
  gp_console :: "console_entry list"
  gp_callback_calls :: "(callback \<times> int) list"

text \<open>
  \<open>translateVector(vector)\<close>; \<open>perfNow\<close> is what \<open>performance.now()\<close> returns. The result is
  the thrown error or the pair of \<open>position\<close> and \<open>velocity\<close>.
\<close>

definition translateVector :: "real \<Rightarrow> Vector \<Rightarrow> error + real \<times> real" where
  "translateVector perfNow vector =
     (if acceleration vector \<noteq> 0 then Inl Acceleration_not_supported
      else
        let now = perfNow / 1000;
            elapsed = now - timestamp vector;
            currentPosition = position vector + velocity vector * elapsed
        in Inr (currentPosition, velocity vector))"

text \<open>
  \<open>syncFromTimingObject()\<close>: the error that leaves the call, if any, and the world the call
  leaves behind.
\<close>

definition syncFromTimingObject :: "real \<Rightarrow> GpWorld \<Rightarrow> error option \<times> GpWorld" where
  "syncFromTimingObject perfNow w =
     (case gp_timingObject (gp_engine w) of
        None \<Rightarrow> (None, w)
      | Some vector \<Rightarrow>
          (case translateVector perfNow vector of
             Inl e \<Rightarrow> (Some e, w)
           | Inr (pos, vel) \<Rightarrow>
               let b = vel * 60;
                   w1 = (if b > 0 \<and> \<bar>tr_bpm (gp_transport w) - b\<bar> > 0.1
                         then (case gp_onBpmChangeCallback (gp_engine w) of
                                 None \<Rightarrow> w
                               | Some cb \<Rightarrow>
                                   w\<lparr>gp_callback_calls :=
                                        gp_callback_calls w @ [(cb, Math_round b)]\<rparr>)
                         else w);
                   w2 = (if vel > 0
                         then
                           let w3 = w1\<lparr>gp_transport :=
                                          set_bpm b (set_seconds (pos / vel) (gp_transport w1))\<rparr>
                           in if tr_state (gp_transport w3) \<noteq> Started
                              then w3\<lparr>gp_console :=
                                        gp_console w3 @ [Log ''[TimingSync] Starting Transport'' []],
                                      gp_transport := transport_start (gp_transport w3)\<rparr>
                              else w3
                         else
                           if tr_state (gp_transport w1) \<noteq> Stopped
                           then w1\<lparr>gp_console :=
                                     gp_console w1 @ [Log ''[TimingSync] Stopping Transport'' []],
                                   gp_transport := transport_stop (gp_transport w1)\<rparr>
                           else w1)
               in (None, w2)))"

section \<open>Concrete engines and inputs\<close>

text \<open>
  An engine initialised at 120 BPM on an untouched transport; the same engine after
  \<open>start()\<close> at wall-clock time 1000; the initialised engine while another component of the
  application has started the shared transport (the sound player calls
  \<open>Tone.getTransport().start()\<close> itself) and the clock stands at 5 s; and the initialised
  engine with callback number 7 registered.
\<close>

definition ready_world :: World where
  "ready_world = initialize 0 0 (1 / 2) 120 new_World"

definition playing_world :: World where
  "playing_world = snd (start 1000 ready_world)"

definition busy_transport_world :: World where
  "busy_transport_world =
     ready_world\<lparr>transport := (transport ready_world)\<lparr>tr_seconds := 5, tr_state := Started\<rparr>\<rparr>"

definition listening_world :: World where
  "listening_world = onBpmChange 7 ready_world"

text \<open>Snapshots as the replicated document delivers them.\<close>

definition remote_playing :: TransportState where
  "remote_playing = \<lparr>startTime = Some 1000, bpm = 140, isPlaying = True, pausedPosition = 0\<rparr>"

definition remote_unset :: TransportState where
  "remote_unset = \<lparr>startTime = None, bpm = 120, isPlaying = True, pausedPosition = 0\<rparr>"

text \<open>A vector with acceleration, and a kinematic engine whose timing object returns it.\<close>

definition accelerating :: Vector where
  "accelerating = \<lparr>position = 0, velocity = 2, timestamp = 0, acceleration = 1\<rparr>"

definition gp_world :: GpWorld where
  "gp_world =
     \<lparr>gp_engine = \<lparr>gp_timingObject = Some accelerating, gp_updateInterval = None,
        gp_isInitialized = True, gp_onBpmChangeCallback = Some 7\<rparr>,
      gp_transport = new_Transport\<lparr>tr_state := Started\<rparr>,
      gp_console = [], gp_callback_calls = []\<rparr>"

section \<open>Unfolding and evaluation\<close>

lemmas world_ops = on_transport_def on_state_def console_log_def console_warn_def invoke_def
  setTimeout_def getState_def not_initialized_def

lemmas tr_ops = set_seconds_def set_bpm_def transport_start_def transport_start_at_def
  transport_pause_def transport_stop_def

lemmas js_ops = truthy_def ToNumber_def

lemma ready_world_eq:
  "ready_world =
     \<lparr>engine = \<lparr>updateInterval = Some 0, isInitialized = True, onBpmChangeCallback = None,
        currentState = \<lparr>startTime = None, bpm = 120, isPlaying = False, pausedPosition = 0\<rparr>\<rparr>,
      transport = \<lparr>tr_seconds = 0, tr_state = Stopped, tr_bpm = 120, tr_pending = None,
        tr_calls = [Set_bpm 120]\<rparr>,
      console = [Log ''Initializing TimingSync with timestamp-based sync'' [],
        Log ''TimingSync ready!'' []],
      callback_calls = [], timeouts = [250]\<rparr>"
  by (simp add: ready_world_def initialize_def startSyncLoop_def sync_def syncToTransport_def
      Let_def world_ops tr_ops new_World_def new_TimingSync_def new_Transport_def)

lemma playing_world_eq:
  "playing_world =
     \<lparr>engine = \<lparr>updateInterval = Some 0, isInitialized = True, onBpmChangeCallback = None,
        currentState = \<lparr>startTime = Some 1000, bpm = 120, isPlaying = True, pausedPosition = 0\<rparr>\<rparr>,
      transport = \<lparr>tr_seconds = 0, tr_state = Started, tr_bpm = 120, tr_pending = None,
        tr_calls = [Set_bpm 120, Set_seconds 0, Start_now]\<rparr>,
      console = [Log ''Initializing TimingSync with timestamp-based sync'' [],
        Log ''TimingSync ready!'' [], Log ''Started playback from 0 at:'' [1000]],
      callback_calls = [], timeouts = [250]\<rparr>"
  by (simp add: playing_world_def ready_world_eq start_def Let_def world_ops tr_ops)

lemma busy_transport_world_eq:
  "busy_transport_world =
     \<lparr>engine = \<lparr>updateInterval = Some 0, isInitialized = True, onBpmChangeCallback = None,
        currentState = \<lparr>startTime = None, bpm = 120, isPlaying = False, pausedPosition = 0\<rparr>\<rparr>,
      transport = \<lparr>tr_seconds = 5, tr_state = Started, tr_bpm = 120, tr_pending = None,
        tr_calls = [Set_bpm 120]\<rparr>,
      console = [Log ''Initializing TimingSync with timestamp-based sync'' [],
        Log ''TimingSync ready!'' []],
      callback_calls = [], timeouts = [250]\<rparr>"
  by (simp add: busy_transport_world_def ready_world_eq)

lemma listening_world_eq:
  "listening_world =
     \<lparr>engine = \<lparr>updateInterval = Some 0, isInitialized = True, onBpmChangeCallback = Some 7,
        currentState = \<lparr>startTime = None, bpm = 120, isPlaying = False, pausedPosition = 0\<rparr>\<rparr>,
      transport = \<lparr>tr_seconds = 0, tr_state = Stopped, tr_bpm = 120, tr_pending = None,
        tr_calls = [Set_bpm 120]\<rparr>,
      console = [Log ''Initializing TimingSync with timestamp-based sync'' [],
        Log ''TimingSync ready!'' []],
      callback_calls = [], timeouts = [250]\<rparr>"
  by (simp add: listening_world_def onBpmChange_def ready_world_eq)

lemma Math_round_near: "\<bar>real_of_int (Math_round x) - x\<bar> \<le> 1 / 2"
  unfolding Math_round_def by linarith

section \<open>The claims\<close>

subsection \<open>Hard seek and smooth seek in the remote reconciler\<close>

text \<open>
  Against claim C1 as it is worded. The engine is initialised and its own state says "not
  playing", while the shared transport is started and stands at 5 s. A playing snapshot with
  \<open>startTime\<close> 1000 arrives at wall-clock time 6000, so the expected position is 5 s, the
  very position of the clock. The clock was already running, yet the reconciler writes the
  position and calls \<open>start()\<close>: a hard seek. The copy of the engine without \<open>seekTo\<close>
  writes the position of a running clock even when the engine's own state was playing.
\<close>

theorem hard_seek_on_running_clock:
  "isInitialized (engine busy_transport_world)
   \<and> isPlaying remote_playing \<and> startTime remote_playing = Some 1000
   \<and> tr_state (transport busy_transport_world) = Started
   \<and> tr_seconds (transport busy_transport_world) = (6000 - 1000) / 1000
   \<and> tr_calls (transport (syncFromRemote 6000 1 remote_playing busy_transport_world)) =
       tr_calls (transport busy_transport_world) @ [Set_bpm 140, Set_seconds 5, Start_now]
   \<and> isInitialized (engine playing_world) \<and> isPlaying (currentState (engine playing_world))
   \<and> tr_state (transport playing_world) = Started
   \<and> tr_calls (transport (syncFromRemote_part_000 1000 remote_playing playing_world)) =
       tr_calls (transport playing_world) @ [Set_bpm 140, Set_seconds 0]"
  by (simp add: busy_transport_world_eq playing_world_eq remote_playing_def syncFromRemote_def
      syncFromRemote_part_000_def Let_def world_ops tr_ops js_ops)

text \<open>
  Claim C1, amended. On an initialised engine, for a snapshot with \<open>isPlaying\<close> true and a
  \<open>startTime\<close> that is neither null nor 0, with \<open>expected = (now - startTime) / 1000\<close>:
  if the engine's previous state was not playing, or the clock was not in the started
  condition, the reconciler writes \<open>expected\<close> to the clock and starts it (hard seek);
  if the previous state was playing and the clock was started, it makes no hard seek: when
  the clock's position is more than 0.05 s away from \<open>expected\<close> it does the smooth seek of
  \<open>seekTo(expected)\<close>, and otherwise it only writes the tempo. The copy of the engine
  without \<open>seekTo\<close> writes \<open>expected\<close> to the clock in every case and starts the clock if
  it was not started.
\<close>

theorem syncFromRemote_playing_snapshot:
  assumes "isInitialized (engine w)" and "isPlaying s" and "startTime s = Some t" and "t \<noteq> 0"
  shows "tr_calls (transport (syncFromRemote now toneNow s w)) =
           tr_calls (transport w) @ Set_bpm (bpm s) #
             (if \<not> isPlaying (currentState (engine w)) \<or> tr_state (transport w) \<noteq> Started
              then [Set_seconds ((now - t) / 1000), Start_now]
              else if 0.05 < \<bar>tr_seconds (transport w) - (now - t) / 1000\<bar>
              then [Pause_call, Set_seconds ((now - t) / 1000 + 0.05), Start_at (toneNow + 0.05)]
              else [])
         \<and> (if \<not> isPlaying (currentState (engine w)) \<or> tr_state (transport w) \<noteq> Started
            then tr_seconds (transport (syncFromRemote now toneNow s w)) = (now - t) / 1000
               \<and> tr_state (transport (syncFromRemote now toneNow s w)) = Started
            else if 0.05 < \<bar>tr_seconds (transport w) - (now - t) / 1000\<bar>
            then transport (syncFromRemote now toneNow s w) =
                   transport (seekTo toneNow ((now - t) / 1000)
                     (on_transport (set_bpm (bpm s)) w))
            else transport (syncFromRemote now toneNow s w) = set_bpm (bpm s) (transport w))
         \<and> tr_calls (transport (syncFromRemote_part_000 now s w)) =
             tr_calls (transport w) @ Set_bpm (bpm s) # Set_seconds ((now - t) / 1000) #
               (if tr_state (transport w) \<noteq> Started then [Start_now] else [])"
proof -
  have part_000: "tr_calls (transport (syncFromRemote_part_000 now s w)) =
             tr_calls (transport w) @ Set_bpm (bpm s) # Set_seconds ((now - t) / 1000) #
               (if tr_state (transport w) \<noteq> Started then [Start_now] else [])"
    using assms
    by (simp add: syncFromRemote_part_000_def Let_def world_ops tr_ops js_ops
        split: option.splits)
  show ?thesis
    using assms part_000
    by (simp add: syncFromRemote_def Let_def world_ops tr_ops js_ops seekTo_def
        split: option.splits)
qed

theorem syncFromRemote_playing_snapshot_witness:
  "isInitialized (engine playing_world) \<and> isPlaying remote_playing
   \<and> startTime remote_playing = Some 1000 \<and> (1000::real) \<noteq> 0
   \<and> isPlaying (currentState (engine playing_world))
   \<and> tr_state (transport playing_world) = Started
   \<and> tr_calls (transport (syncFromRemote 6000 1 remote_playing playing_world)) =
       tr_calls (transport playing_world) @
         [Set_bpm 140, Pause_call, Set_seconds (5 + 0.05), Start_at (1 + 0.05)]
   \<and> \<not> isPlaying (currentState (engine ready_world))
   \<and> tr_calls (transport (syncFromRemote 6000 1 remote_playing ready_world)) =
       tr_calls (transport ready_world) @ [Set_bpm 140, Set_seconds 5, Start_now]
   \<and> tr_state (transport (syncFromRemote 6000 1 remote_playing ready_world)) = Started
   \<and> tr_calls (transport (syncFromRemote_part_000 6000 remote_playing ready_world)) =
       tr_calls (transport ready_world) @ [Set_bpm 140, Set_seconds 5, Start_now]"
proof -
  have h1: "isInitialized (engine playing_world)" and h1': "isInitialized (engine ready_world)"
    by (simp_all add: playing_world_eq ready_world_eq)
  have h2: "isPlaying remote_playing" and h3: "startTime remote_playing = Some 1000"
    by (simp_all add: remote_playing_def)
  have h4: "(1000::real) \<noteq> 0" by simp
  from syncFromRemote_playing_snapshot [OF h1 h2 h3 h4, of 6000 1]
    syncFromRemote_playing_snapshot [OF h1' h2 h3 h4, of 6000 1]
  show ?thesis
    by (simp add: h2 h3) (simp add: playing_world_eq ready_world_eq remote_playing_def)
qed

subsection \<open>Pause and resume\<close>

text \<open>
  Claim C2. On an initialised engine that is playing, \<open>pause()\<close> at wall-clock time \<open>t1\<close>
  followed by \<open>resume()\<close> at wall-clock time \<open>t2\<close> leaves a playing state whose
  \<open>startTime\<close> is \<open>t2 - pausedPosition * 1000\<close>, for the \<open>pausedPosition\<close> that \<open>pause()\<close>
  recorded; so the position derived at \<open>t2\<close>, \<open>(t2 - startTime) / 1000\<close>, is that
  \<open>pausedPosition\<close>, and the clock has been set to it. Numbers are reals here, so the
  equality is exact; the order of \<open>t1\<close> and \<open>t2\<close> plays no part.
\<close>

theorem pause_resume_round_trip:
  assumes "isInitialized (engine w)" and "isPlaying (currentState (engine w))"
  shows "startTime (fst (resume t2 (snd (pause t1 w)))) =
           Some (t2 - pausedPosition (fst (pause t1 w)) * 1000)
         \<and> isPlaying (fst (resume t2 (snd (pause t1 w))))
         \<and> (t2 - ToNumber (startTime (fst (resume t2 (snd (pause t1 w)))))) / 1000 =
             pausedPosition (fst (pause t1 w))
         \<and> currentState (engine (snd (resume t2 (snd (pause t1 w))))) =
             fst (resume t2 (snd (pause t1 w)))
         \<and> tr_seconds (transport (snd (resume t2 (snd (pause t1 w))))) =
             pausedPosition (fst (pause t1 w))"
  using assms
  by (simp add: pause_def resume_def Let_def world_ops tr_ops js_ops)

theorem pause_resume_round_trip_witness:
  "isInitialized (engine playing_world) \<and> isPlaying (currentState (engine playing_world))
   \<and> pausedPosition (fst (pause 3000 playing_world)) = 2
   \<and> startTime (fst (resume 10000 (snd (pause 3000 playing_world)))) = Some 8000
   \<and> (10000 - ToNumber (startTime (fst (resume 10000 (snd (pause 3000 playing_world)))))) / 1000
       = 2"
proof -
  have h1: "isInitialized (engine playing_world)"
    and h2: "isPlaying (currentState (engine playing_world))"
    by (simp_all add: playing_world_eq)
  have p: "pausedPosition (fst (pause 3000 playing_world)) = 2"
    by (simp add: playing_world_eq pause_def Let_def world_ops tr_ops js_ops)
  from pause_resume_round_trip [OF h1 h2, of 10000 3000]
  show ?thesis by (simp add: h1 h2 p js_ops)
qed

subsection \<open>The stored tempo\<close>

text \<open>
  Against claim C3 as it is worded. On the engine initialised at 120 BPM, \<open>setBPM(-5)\<close>
  stores \<open>-5\<close>: the stored tempo does not stay positive.
\<close>

theorem setBPM_stores_nonpositive:
  "isInitialized (engine ready_world) \<and> 0 < bpm (currentState (engine ready_world))
   \<and> bpm (currentState (engine (snd (setBPM (- 5) ready_world)))) = - 5
   \<and> \<not> 0 < bpm (currentState (engine (snd (setBPM (- 5) ready_world))))"
  by (simp add: ready_world_eq setBPM_def Let_def world_ops tr_ops)

text \<open>
  Claim C3, amended. On an initialised engine \<open>setBPM(b)\<close> stores \<open>b\<close> whatever it is, so
  the stored tempo is positive afterwards exactly when \<open>b\<close> is. \<open>start\<close>, \<open>resume\<close>,
  \<open>pause\<close>, \<open>reset\<close> and the drift corrector leave the stored tempo as it was, and
  \<open>syncFromRemote\<close> stores the tempo of the snapshot.
\<close>

theorem tempo_is_stored_unvalidated:
  assumes "isInitialized (engine w)"
  shows "bpm (fst (setBPM b w)) = b
       \<and> bpm (currentState (engine (snd (setBPM b w)))) = b
       \<and> (0 < bpm (currentState (engine (snd (setBPM b w)))) \<longleftrightarrow> 0 < b)
       \<and> bpm (currentState (engine (snd (start now w)))) = bpm (currentState (engine w))
       \<and> bpm (currentState (engine (snd (resume now w)))) = bpm (currentState (engine w))
       \<and> bpm (currentState (engine (snd (pause now w)))) = bpm (currentState (engine w))
       \<and> bpm (currentState (engine (snd (reset now w)))) = bpm (currentState (engine w))
       \<and> bpm (currentState (engine (syncToTransport now toneNow w))) =
           bpm (currentState (engine w))
       \<and> bpm (currentState (engine (syncFromRemote now toneNow s w))) = bpm s"
  using assms
  by (simp add: setBPM_def start_def resume_def pause_def reset_def syncFromRemote_def
      syncToTransport_def seekTo_def Let_def world_ops tr_ops split: option.splits)

theorem tempo_is_stored_unvalidated_witness:
  "isInitialized (engine ready_world)
   \<and> bpm (currentState (engine (snd (setBPM 90 ready_world)))) = 90
   \<and> bpm (currentState (engine (snd (start 1000 ready_world)))) = 120
   \<and> bpm (currentState (engine (snd (pause 1000 ready_world)))) = 120
   \<and> bpm (currentState (engine (syncFromRemote 1000 1 remote_playing ready_world))) = 140"
proof -
  have h: "isInitialized (engine ready_world)" by (simp add: ready_world_eq)
  from tempo_is_stored_unvalidated [OF h, of 90 1000 1 remote_playing]
  show ?thesis
    by (simp add: h) (simp add: ready_world_eq remote_playing_def)
qed

subsection \<open>The drift threshold\<close>

text \<open>
  Claim C4. The engine is initialised and playing. With a \<open>startTime\<close> that is set (as the
  code tests it: neither null nor 0) and \<open>expected = (now - startTime) / 1000\<close>, the periodic
  corrector \<open>syncToTransport\<close> changes nothing when the clock's position is at most 0.05 s
  from \<open>expected\<close>. When it is further away, the corrector does correct: it makes exactly the
  three calls of the smooth seek on the clock (pause, position set to \<open>expected + 0.05\<close>, start
  scheduled at the audio time plus 0.05), which leave the clock at \<open>expected + 0.05\<close>, not
  started, with that start pending, and so different from what it was. The same holds for
  \<open>syncFromRemote\<close> when the clock is started and the snapshot is playing with its
  \<open>startTime\<close> set: within 0.05 s the clock's position, state and pending start are untouched
  (only the tempo of the snapshot is written), and beyond 0.05 s the tempo is written and
  the same three calls follow.
\<close>

theorem drift_corrector_threshold:
  assumes "isInitialized (engine w)" and "isPlaying (currentState (engine w))"
  shows "(startTime (currentState (engine w)) = Some t \<and> t \<noteq> 0 \<longrightarrow>
            (if \<bar>tr_seconds (transport w) - (now - t) / 1000\<bar> \<le> 0.05
             then syncToTransport now toneNow w = w
             else transport (syncToTransport now toneNow w) =
                    transport (seekTo toneNow ((now - t) / 1000) w)
                \<and> tr_calls (transport (syncToTransport now toneNow w)) =
                    tr_calls (transport w) @
                      [Pause_call, Set_seconds ((now - t) / 1000 + 0.05),
                       Start_at (toneNow + 0.05)]
                \<and> tr_seconds (transport (syncToTransport now toneNow w)) =
                    (now - t) / 1000 + 0.05
                \<and> tr_pending (transport (syncToTransport now toneNow w)) =
                    Some (toneNow + 0.05)
                \<and> tr_state (transport (syncToTransport now toneNow w)) =
                    (if tr_state (transport w) = Started then Paused
                     else tr_state (transport w))
                \<and> transport (syncToTransport now toneNow w) \<noteq> transport w))
       \<and> (tr_state (transport w) = Started \<and> isPlaying s \<and> startTime s = Some t' \<and> t' \<noteq> 0 \<longrightarrow>
            (if \<bar>tr_seconds (transport w) - (now - t') / 1000\<bar> \<le> 0.05
             then transport (syncFromRemote now toneNow s w) = set_bpm (bpm s) (transport w)
             else transport (syncFromRemote now toneNow s w) =
                    transport (seekTo toneNow ((now - t') / 1000)
                      (on_transport (set_bpm (bpm s)) w))
                \<and> tr_calls (transport (syncFromRemote now toneNow s w)) =
                    tr_calls (transport w) @
                      [Set_bpm (bpm s), Pause_call, Set_seconds ((now - t') / 1000 + 0.05),
                       Start_at (toneNow + 0.05)]
                \<and> tr_seconds (transport (syncFromRemote now toneNow s w)) =
                    (now - t') / 1000 + 0.05
                \<and> tr_pending (transport (syncFromRemote now toneNow s w)) =
                    Some (toneNow + 0.05)
                \<and> tr_state (transport (syncFromRemote now toneNow s w)) = Paused
                \<and> transport (syncFromRemote now toneNow s w) \<noteq>
                    set_bpm (bpm s) (transport w)))"
proof -
  have periodic:
    "startTime (currentState (engine w)) = Some t \<and> t \<noteq> 0 \<longrightarrow>
       (if \<bar>tr_seconds (transport w) - (now - t) / 1000\<bar> \<le> 0.05
        then syncToTransport now toneNow w = w
        else transport (syncToTransport now toneNow w) =
               transport (seekTo toneNow ((now - t) / 1000) w)
           \<and> tr_calls (transport (syncToTransport now toneNow w)) =
               tr_calls (transport w) @
                 [Pause_call, Set_seconds ((now - t) / 1000 + 0.05), Start_at (toneNow + 0.05)]
           \<and> tr_seconds (transport (syncToTransport now toneNow w)) = (now - t) / 1000 + 0.05
           \<and> tr_pending (transport (syncToTransport now toneNow w)) = Some (toneNow + 0.05)
           \<and> tr_state (transport (syncToTransport now toneNow w)) =
               (if tr_state (transport w) = Started then Paused else tr_state (transport w)))"
    using assms
    by (simp add: syncToTransport_def Let_def world_ops tr_ops js_ops seekTo_def)
  have remote:
    "tr_state (transport w) = Started \<and> isPlaying s \<and> startTime s = Some t' \<and> t' \<noteq> 0 \<longrightarrow>
       (if \<bar>tr_seconds (transport w) - (now - t') / 1000\<bar> \<le> 0.05
        then transport (syncFromRemote now toneNow s w) = set_bpm (bpm s) (transport w)
        else transport (syncFromRemote now toneNow s w) =
               transport (seekTo toneNow ((now - t') / 1000) (on_transport (set_bpm (bpm s)) w))
           \<and> tr_calls (transport (syncFromRemote now toneNow s w)) =
               tr_calls (transport w) @
                 [Set_bpm (bpm s), Pause_call, Set_seconds ((now - t') / 1000 + 0.05),
                  Start_at (toneNow + 0.05)]
           \<and> tr_seconds (transport (syncFromRemote now toneNow s w)) = (now - t') / 1000 + 0.05
           \<and> tr_pending (transport (syncFromRemote now toneNow s w)) = Some (toneNow + 0.05)
           \<and> tr_state (transport (syncFromRemote now toneNow s w)) = Paused)"
    using assms
    by (simp add: syncFromRemote_def Let_def world_ops tr_ops js_ops seekTo_def
        split: option.splits)
  have differs: "tr_calls x = tr_calls y @ c # cs \<Longrightarrow> x \<noteq> y" for x y :: Transport and c cs
    by auto
  have bpm_calls: "tr_calls (set_bpm b tr) = tr_calls tr @ [Set_bpm b]" for b tr
    by (simp add: set_bpm_def)
  have differs_after_bpm:
    "tr_calls x = tr_calls y @ [Set_bpm b, c1, c2, c3] \<Longrightarrow> x \<noteq> set_bpm b y"
    for x y :: Transport and b c1 c2 c3
    by (auto simp: bpm_calls)
  from periodic remote show ?thesis
    by (auto split: if_splits dest: differs differs_after_bpm)
qed

theorem drift_corrector_threshold_witness:
  "isInitialized (engine playing_world) \<and> isPlaying (currentState (engine playing_world))
   \<and> startTime (currentState (engine playing_world)) = Some 1000 \<and> (1000::real) \<noteq> 0
   \<and> tr_state (transport playing_world) = Started
   \<and> isPlaying remote_playing \<and> startTime remote_playing = Some 1000
   \<and> syncToTransport 1050 1 playing_world = playing_world
   \<and> tr_calls (transport (syncToTransport 1051 1 playing_world)) =
       [Set_bpm 120, Set_seconds 0, Start_now,
        Pause_call, Set_seconds (51 / 1000 + 0.05), Start_at (1 + 0.05)]
   \<and> tr_seconds (transport (syncToTransport 1051 1 playing_world)) = 51 / 1000 + 0.05
   \<and> tr_state (transport (syncToTransport 1051 1 playing_world)) = Paused
   \<and> tr_pending (transport (syncToTransport 1051 1 playing_world)) = Some (1 + 0.05)
   \<and> transport (syncToTransport 1051 1 playing_world) \<noteq> transport playing_world
   \<and> transport (syncFromRemote 1050 1 remote_playing playing_world) =
       set_bpm 140 (transport playing_world)
   \<and> tr_calls (transport (syncFromRemote 1051 1 remote_playing playing_world)) =
       [Set_bpm 120, Set_seconds 0, Start_now,
        Set_bpm 140, Pause_call, Set_seconds (51 / 1000 + 0.05), Start_at (1 + 0.05)]
   \<and> tr_seconds (transport (syncFromRemote 1051 1 remote_playing playing_world)) =
       51 / 1000 + 0.05
   \<and> tr_state (transport (syncFromRemote 1051 1 remote_playing playing_world)) = Paused"
proof -
  have h1: "isInitialized (engine playing_world)"
    and h2: "isPlaying (currentState (engine playing_world))"
    by (simp_all add: playing_world_eq)
  from drift_corrector_threshold [OF h1 h2, of 1000 1050 1 remote_playing 1000]
    drift_corrector_threshold [OF h1 h2, of 1000 1051 1 remote_playing 1000]
  show ?thesis
    by (simp add: playing_world_eq remote_playing_def syncToTransport_def syncFromRemote_def
        seekTo_def Let_def world_ops tr_ops js_ops)
qed

subsection \<open>Tempo-change callback\<close>

text \<open>
  Claim C5. On an initialised engine with a registered callback, \<open>syncFromRemote(state)\<close>
  calls the callback once, with \<open>Math.round(state.bpm)\<close>, when the incoming tempo differs
  from the current one by more than 0.1, and does not call it otherwise. The argument is an
  integer at most one half away from the incoming tempo.
\<close>

theorem tempo_callback_threshold:
  assumes "isInitialized (engine w)" and "onBpmChangeCallback (engine w) = Some cb"
  shows "callback_calls (syncFromRemote now toneNow s w) =
           callback_calls w @
             (if 0.1 < \<bar>bpm s - bpm (currentState (engine w))\<bar>
              then [(cb, Math_round (bpm s))] else [])
         \<and> \<bar>real_of_int (Math_round (bpm s)) - bpm s\<bar> \<le> 1 / 2"
proof -
  have "\<bar>bpm (currentState (engine w)) - bpm s\<bar> = \<bar>bpm s - bpm (currentState (engine w))\<bar>"
    by (rule abs_minus_commute)
  then have "callback_calls (syncFromRemote now toneNow s w) =
           callback_calls w @
             (if 0.1 < \<bar>bpm s - bpm (currentState (engine w))\<bar>
              then [(cb, Math_round (bpm s))] else [])"
    using assms by (simp add: syncFromRemote_def Let_def world_ops tr_ops seekTo_def)
  then show ?thesis using Math_round_near by simp
qed

theorem tempo_callback_threshold_witness:
  "isInitialized (engine listening_world) \<and> onBpmChangeCallback (engine listening_world) = Some 7
   \<and> callback_calls (syncFromRemote 6000 1 remote_playing listening_world) = [(7, 140)]
   \<and> callback_calls (syncFromRemote 6000 1 (remote_playing\<lparr>bpm := 120.1\<rparr>) listening_world) = []"
proof -
  have h1: "isInitialized (engine listening_world)"
    and h2: "onBpmChangeCallback (engine listening_world) = Some 7"
    by (simp_all add: listening_world_eq)
  have r: "Math_round 140 = 140" by (simp add: Math_round_def)
  from tempo_callback_threshold [OF h1 h2, of 6000 1 remote_playing]
    tempo_callback_threshold [OF h1 h2, of 6000 1 "remote_playing\<lparr>bpm := 120.1\<rparr>"]
  show ?thesis by (simp add: h1 h2 r listening_world_eq remote_playing_def)
qed

subsection \<open>Smooth seek\<close>

text \<open>
  Against claim C6 as it is worded. On a started clock, \<open>seekTo(10)\<close> at audio time 100
  pauses the clock with a start pending at audio time 100.05; at that moment the clock's
  position is 10.05, not the target 10.
\<close>

theorem seekTo_resumes_ahead_of_target:
  "tr_state (transport playing_world) = Started
   \<and> tr_state (transport (seekTo 100 10 playing_world)) = Paused
   \<and> tr_pending (transport (seekTo 100 10 playing_world)) = Some (100 + 0.05)
   \<and> position_at 100 (100 + 0.05) (transport (seekTo 100 10 playing_world)) = 10 + 0.05
   \<and> position_at 100 (100 + 0.05) (transport (seekTo 100 10 playing_world)) \<noteq> 10"
  by (simp add: playing_world_eq seekTo_def Let_def world_ops tr_ops position_at_def)

text \<open>
  Claim C6, amended. For every target, \<open>seekTo(target)\<close> does exactly three things to the
  clock, in this order: it pauses it, sets its position to \<open>target + 0.05\<close>, and schedules
  its start 0.05 s after the current audio time. A started clock is paused by it, and at the
  moment of the scheduled start the clock's position is \<open>target + 0.05\<close>; when \<open>target\<close>
  was the position \<open>(now - ref) / 1000\<close> of the timeline at the call, that is the position of
  the timeline 50 ms later. The engine's own state is not touched.
\<close>

theorem seekTo_steps:
  "tr_calls (transport (seekTo toneNow target w)) =
     tr_calls (transport w) @
       [Pause_call, Set_seconds (target + 0.05), Start_at (toneNow + 0.05)]
   \<and> tr_state (transport (seekTo toneNow target w)) =
       (if tr_state (transport w) = Started then Paused else tr_state (transport w))
   \<and> tr_seconds (transport (seekTo toneNow target w)) = target + 0.05
   \<and> tr_pending (transport (seekTo toneNow target w)) = Some (toneNow + 0.05)
   \<and> position_at toneNow (toneNow + 0.05) (transport (seekTo toneNow target w)) = target + 0.05
   \<and> position_at toneNow (toneNow + 0.05)
       (transport (seekTo toneNow ((now - ref) / 1000) w)) = ((now + 50) - ref) / 1000
   \<and> engine (seekTo toneNow target w) = engine w"
  by (simp add: seekTo_def Let_def world_ops tr_ops position_at_def)

theorem seekTo_steps_witness:
  "tr_calls (transport (seekTo 100 10 playing_world)) =
     [Set_bpm 120, Set_seconds 0, Start_now, Pause_call, Set_seconds (10 + 0.05),
      Start_at (100 + 0.05)]
   \<and> tr_state (transport (seekTo 100 10 playing_world)) = Paused
   \<and> position_at 100 (100 + 0.05) (transport (seekTo 100 10 playing_world)) = 10 + 0.05"
  using seekTo_steps [of 100 10 playing_world]
  by (simp add: playing_world_eq)

subsection \<open>Commands before initialisation\<close>

text \<open>
  Claim C7. Before initialisation each of \<open>start\<close>, \<open>resume\<close>, \<open>pause\<close>, \<open>reset\<close> and
  \<open>setBPM\<close> returns the current state and leaves the engine, the transport, the callback
  calls and the timeouts as they were: the one thing it does is to write the warning
  \<open>TimingSync not initialized\<close> to the console.
\<close>

theorem commands_before_initialize:
  assumes "\<not> isInitialized (engine w)"
  shows "start now w = (currentState (engine w), w\<lparr>console := console w @ [Warn ''TimingSync not initialized'']\<rparr>)
       \<and> resume now w = (currentState (engine w), w\<lparr>console := console w @ [Warn ''TimingSync not initialized'']\<rparr>)
       \<and> pause now w = (currentState (engine w), w\<lparr>console := console w @ [Warn ''TimingSync not initialized'']\<rparr>)
       \<and> reset now w = (currentState (engine w), w\<lparr>console := console w @ [Warn ''TimingSync not initialized'']\<rparr>)
       \<and> setBPM b w = (currentState (engine w), w\<lparr>console := console w @ [Warn ''TimingSync not initialized'']\<rparr>)"
  using assms
  by (simp add: start_def resume_def pause_def reset_def setBPM_def not_initialized_def
      console_warn_def)

theorem commands_before_initialize_witness:
  "\<not> isInitialized (engine new_World)
   \<and> start 1000 new_World = (currentState new_TimingSync, new_World\<lparr>console := [Warn ''TimingSync not initialized'']\<rparr>)
   \<and> resume 1000 new_World = (currentState new_TimingSync, new_World\<lparr>console := [Warn ''TimingSync not initialized'']\<rparr>)
   \<and> pause 1000 new_World = (currentState new_TimingSync, new_World\<lparr>console := [Warn ''TimingSync not initialized'']\<rparr>)
   \<and> reset 1000 new_World = (currentState new_TimingSync, new_World\<lparr>console := [Warn ''TimingSync not initialized'']\<rparr>)
   \<and> setBPM 90 new_World = (currentState new_TimingSync, new_World\<lparr>console := [Warn ''TimingSync not initialized'']\<rparr>)"
proof -
  have h: "\<not> isInitialized (engine new_World)"
    by (simp add: new_World_def new_TimingSync_def)
  from commands_before_initialize [OF h, of 1000 90]
  show ?thesis by (simp add: h new_World_def new_TimingSync_def)
qed

subsection \<open>Vectors with acceleration\<close>

text \<open>
  Claim C8. For a vector whose acceleration is not zero \<open>translateVector\<close> throws, and
  \<open>syncFromTimingObject\<close> on an engine whose timing object returns that vector ends with
  the same error and leaves the engine, the transport, the console and the callback calls as
  they were.
\<close>

theorem accelerated_vector_rejected:
  assumes "acceleration v \<noteq> 0"
  shows "translateVector perfNow v = Inl Acceleration_not_supported
         \<and> (gp_timingObject (gp_engine w) = Some v \<longrightarrow>
              syncFromTimingObject perfNow w = (Some Acceleration_not_supported, w))"
  using assms by (simp add: translateVector_def syncFromTimingObject_def)

theorem accelerated_vector_rejected_witness:
  "acceleration accelerating \<noteq> 0 \<and> gp_timingObject (gp_engine gp_world) = Some accelerating
   \<and> translateVector 5000 accelerating = Inl Acceleration_not_supported
   \<and> syncFromTimingObject 5000 gp_world = (Some Acceleration_not_supported, gp_world)"
proof -
  have h1: "acceleration accelerating \<noteq> 0" by (simp add: accelerating_def)
  have h2: "gp_timingObject (gp_engine gp_world) = Some accelerating" by (simp add: gp_world_def)
  from accelerated_vector_rejected [OF h1, of 5000 gp_world]
  show ?thesis by (simp add: h1 h2)
qed

subsection \<open>Delay of the periodic loop\<close>

text \<open>
  Claim C9. For a random draw \<open>r\<close> with \<open>0 \<le> r < 1\<close>, each run of the loop body hands
  \<open>window.setTimeout\<close> exactly one delay, \<open>250 + (r * 100 - 50)\<close> milliseconds, and that delay
  lies between 200 and 300.
\<close>

theorem sync_delay_within_bounds:
  assumes "0 \<le> r" and "r < 1"
  shows "timeouts (sync now toneNow r w) = timeouts w @ [250 + (r * 100 - 50)]
         \<and> 200 \<le> 250 + (r * 100 - 50) \<and> 250 + (r * 100 - 50) \<le> 300"
proof -
  have "timeouts (syncToTransport now toneNow w) = timeouts w"
    by (simp add: syncToTransport_def seekTo_def Let_def world_ops)
  then have "timeouts (sync now toneNow r w) = timeouts w @ [250 + (r * 100 - 50)]"
    by (simp add: sync_def Let_def setTimeout_def)
  moreover have "200 \<le> 250 + (r * 100 - 50)" using assms(1) by simp
  moreover have "250 + (r * 100 - 50) \<le> 300" using assms(2) by simp
  ultimately show ?thesis by simp
qed

theorem sync_delay_within_bounds_witness:
  "(0::real) \<le> 1 / 2 \<and> (1 / 2 :: real) < 1
   \<and> timeouts (sync 250 1 (1 / 2) ready_world) = [250, 250]
   \<and> (200::real) \<le> 250 + (1 / 2 * 100 - 50) \<and> (250::real) + (1 / 2 * 100 - 50) \<le> 300"
proof -
  have h1: "(0::real) \<le> 1 / 2" and h2: "(1 / 2 :: real) < 1" by simp_all
  from sync_delay_within_bounds [OF h1 h2, of 250 1 ready_world]
  show ?thesis by (simp add: ready_world_eq)
qed

subsection \<open>A playing snapshot without a start time\<close>

text \<open>
  Claim C10. On an initialised engine, a snapshot with \<open>isPlaying\<close> true and \<open>startTime\<close>
  null is adopted as the local state; the clock's position is not written, and the clock is
  paused if it was started. Apart from the adopted state, the call leaves exactly what the
  same snapshot with \<open>isPlaying\<close> false leaves.
\<close>

theorem unset_reference_handled_as_not_playing:
  assumes "isInitialized (engine w)" and "isPlaying s" and "startTime s = None"
  shows "syncFromRemote now toneNow s w =
           on_state (\<lambda>_. s) (syncFromRemote now toneNow (s\<lparr>isPlaying := False\<rparr>) w)
         \<and> currentState (engine (syncFromRemote now toneNow s w)) = s
         \<and> tr_seconds (transport (syncFromRemote now toneNow s w)) = tr_seconds (transport w)
         \<and> tr_calls (transport (syncFromRemote now toneNow s w)) =
             tr_calls (transport w) @ Set_bpm (bpm s) #
               (if tr_state (transport w) = Started then [Pause_call] else [])
         \<and> tr_state (transport (syncFromRemote now toneNow s w)) =
             (if tr_state (transport w) = Started then Paused else tr_state (transport w))"
  using assms
  by (simp add: syncFromRemote_def Let_def world_ops tr_ops js_ops split: option.splits)

theorem unset_reference_handled_as_not_playing_witness:
  "isInitialized (engine playing_world) \<and> isPlaying remote_unset \<and> startTime remote_unset = None
   \<and> currentState (engine (syncFromRemote 6000 1 remote_unset playing_world)) = remote_unset
   \<and> tr_seconds (transport (syncFromRemote 6000 1 remote_unset playing_world)) = 0
   \<and> tr_calls (transport (syncFromRemote 6000 1 remote_unset playing_world)) =
       [Set_bpm 120, Set_seconds 0, Start_now, Set_bpm 120, Pause_call]
   \<and> tr_state (transport (syncFromRemote 6000 1 remote_unset playing_world)) = Paused"
proof -
  have h1: "isInitialized (engine playing_world)" by (simp add: playing_world_eq)
  have h2: "isPlaying remote_unset" and h3: "startTime remote_unset = None"
    by (simp_all add: remote_unset_def)
  from unset_reference_handled_as_not_playing [OF h1 h2 h3, of 6000 1]
  show ?thesis
    by (simp add: playing_world_eq remote_unset_def syncFromRemote_def Let_def world_ops tr_ops
        js_ops)
qed

end
